theory Spec2Isabelle
  imports Complex_Main
begin

section \<open>The short-term plasticity synapse of models/tsodyks3_synapse.h\<close>

text \<open>
  The class \<^verbatim>\<open>tsodyks3_synapse\<close> keeps seven \<^verbatim>\<open>double\<close> members and has two
  operations that change them: \<^verbatim>\<open>send\<close> (one call per presynaptic spike) and
  \<^verbatim>\<open>set_status\<close> (configuration from a dictionary).

  Numbers: a \<^verbatim>\<open>double\<close> is modelled as a \<^typ>\<open>real\<close> and \<^verbatim>\<open>std::exp\<close> as
  \<^term>\<open>exp\<close>. Rounding, infinities and NaN are therefore outside the model. In
  particular a quotient whose divisor is zero is an infinity or a NaN in the program but
  \<open>0\<close> in HOL, so every statement below that depends on the value of the quotient
  \<^verbatim>\<open>-h / tau_rec_\<close> carries the hypothesis that \<^verbatim>\<open>tau_rec_\<close> is not zero, or
  is about a state in which it is not (the quotient \<^verbatim>\<open>-h / tau_fac_\<close> is only
  evaluated when \<^verbatim>\<open>tau_fac_\<close> is at least \<^verbatim>\<open>1.0e-10\<close>).

  Names: an Isabelle name cannot end in an underscore, so the member \<^verbatim>\<open>x_\<close> is the
  field \<open>m_x\<close>, and likewise for the other members.
\<close>

subsection \<open>State\<close>

record tsodyks3_synapse =
  m_weight :: real
  m_U :: real
  m_u :: real
  m_x :: real
  m_tau_rec :: real
  m_tau_fac :: real
  m_t_lastspike :: real

text \<open>The constructor (lines 228--239): \<^verbatim>\<open>u_\<close> is initialised from \<^verbatim>\<open>U_\<close>.\<close>

definition new_tsodyks3_synapse :: tsodyks3_synapse where
  "new_tsodyks3_synapse =
     \<lparr>m_weight = 1, m_U = 1 / 2, m_u = 1 / 2, m_x = 1,
      m_tau_rec = 800, m_tau_fac = 0, m_t_lastspike = 0\<rparr>"

subsection \<open>Events and the connection base\<close>

text \<open>
  \<^verbatim>\<open>send\<close> reads the time stamp of the event it is given, overwrites the event's
  receiver, weight, delay and receiver port, and delivers it (\<^verbatim>\<open>e()\<close>). The values
  of \<^verbatim>\<open>get_target\<close>, \<^verbatim>\<open>get_delay_steps\<close> and \<^verbatim>\<open>get_rport\<close> belong to the base
  class \<^verbatim>\<open>Connection\<close>, which is not part of this file; they are parameters here.
  Nodes and threads are identified by natural numbers.
\<close>

record event =
  stamp_ms :: real
  ev_receiver :: nat
  ev_weight :: real
  ev_delay_steps :: int
  ev_rport :: int

record connection_base =
  get_target :: "nat \<Rightarrow> nat"
  get_delay_steps :: int
  get_rport :: int

subsection \<open>send\<close>

text \<open>Line 206: \<^verbatim>\<open>x_decay = std::exp( -h / tau_rec_ )\<close> with \<^verbatim>\<open>h = t_spike - t_lastspike_\<close>.\<close>

definition x_decay :: "real \<Rightarrow> tsodyks3_synapse \<Rightarrow> real" where
  "x_decay t_spike s = exp (- (t_spike - m_t_lastspike s) / m_tau_rec s)"

text \<open>Line 207: the conditional expression guarding the division by \<^verbatim>\<open>tau_fac_\<close>.\<close>

definition u_decay :: "real \<Rightarrow> tsodyks3_synapse \<Rightarrow> real" where
  "u_decay t_spike s =
     (if m_tau_fac s < 1 / 10 ^ 10 then 0
      else exp (- (t_spike - m_t_lastspike s) / m_tau_fac s))"

text \<open>Lines 209--210: both decays are computed from the members as they were on entry.\<close>

definition decay :: "real \<Rightarrow> tsodyks3_synapse \<Rightarrow> tsodyks3_synapse" where
  "decay t_spike s =
     s\<lparr>m_x := 1 + (m_x s - 1) * x_decay t_spike s,
       m_u := m_U s + (m_u s - m_U s) * u_decay t_spike s\<rparr>"

text \<open>Line 212: \<^verbatim>\<open>u_ += U_ * (1. - u_)\<close>.\<close>

definition facilitate :: "tsodyks3_synapse \<Rightarrow> tsodyks3_synapse" where
  "facilitate s = s\<lparr>m_u := m_u s + m_U s * (1 - m_u s)\<rparr>"

text \<open>Line 222: \<^verbatim>\<open>x_ -= u_ * x_\<close>.\<close>

definition deplete :: "tsodyks3_synapse \<Rightarrow> tsodyks3_synapse" where
  "deplete s = s\<lparr>m_x := m_x s - m_u s * m_x s\<rparr>"

text \<open>
  Lines 199--226. The result is the event as it is delivered by \<^verbatim>\<open>e()\<close> on line 219
  together with the state on return.
\<close>

definition send ::
  "event \<Rightarrow> nat \<Rightarrow> connection_base \<Rightarrow> tsodyks3_synapse \<Rightarrow> event \<times> tsodyks3_synapse" where
  "send e t cb s =
     (let target = get_target cb t;
          t_spike = stamp_ms e;
          s1 = facilitate (decay t_spike s);
          e1 = e\<lparr>ev_receiver := target,
                 ev_weight := m_weight s1 * m_x s1 * m_u s1,
                 ev_delay_steps := get_delay_steps cb,
                 ev_rport := get_rport cb\<rparr>;
          s2 = deplete s1
      in (e1, s2\<lparr>m_t_lastspike := t_spike\<rparr>))"

text \<open>
  The kernel calls \<^verbatim>\<open>send\<close> once for each spike of the connection, in order;
  \<open>send_all\<close> is that sequence of calls and lists the outcome of each.
\<close>

fun send_all ::
  "event list \<Rightarrow> nat \<Rightarrow> connection_base \<Rightarrow> tsodyks3_synapse
     \<Rightarrow> (event \<times> tsodyks3_synapse) list" where
  "send_all [] t cb s = []"
| "send_all (e # es) t cb s = send e t cb s # send_all es t cb (snd (send e t cb s))"

text \<open>
  Two other orders of the same statements, for comparison with the order of the source:
  \<open>send_deplete_first\<close> moves line 222 before line 215, and
  \<open>send_weight_first\<close> moves line 215 before line 212.
\<close>

definition send_deplete_first ::
  "event \<Rightarrow> nat \<Rightarrow> connection_base \<Rightarrow> tsodyks3_synapse \<Rightarrow> event \<times> tsodyks3_synapse" where
  "send_deplete_first e t cb s =
     (let target = get_target cb t;
          t_spike = stamp_ms e;
          s1 = facilitate (decay t_spike s);
          s2 = deplete s1;
          e1 = e\<lparr>ev_receiver := target,
                 ev_weight := m_weight s2 * m_x s2 * m_u s2,
                 ev_delay_steps := get_delay_steps cb,
                 ev_rport := get_rport cb\<rparr>
      in (e1, s2\<lparr>m_t_lastspike := t_spike\<rparr>))"

definition send_weight_first ::
  "event \<Rightarrow> nat \<Rightarrow> connection_base \<Rightarrow> tsodyks3_synapse \<Rightarrow> event \<times> tsodyks3_synapse" where
  "send_weight_first e t cb s =
     (let target = get_target cb t;
          t_spike = stamp_ms e;
          s0 = decay t_spike s;
          e1 = e\<lparr>ev_receiver := target,
                 ev_weight := m_weight s0 * m_x s0 * m_u s0,
                 ev_delay_steps := get_delay_steps cb,
                 ev_rport := get_rport cb\<rparr>;
          s2 = deplete (facilitate s0)
      in (e1, s2\<lparr>m_t_lastspike := t_spike\<rparr>))"

subsection \<open>set_status\<close>

text \<open>
  The dictionary is a finite map from the names the function looks up to the values
  stored under them. \<^verbatim>\<open>updateValue< double >( d, n, v )\<close> assigns to \<^verbatim>\<open>v\<close> when the
  name is present and leaves it alone otherwise.
\<close>

datatype name = name_weight | name_dU | name_u | name_tau_rec | name_tau_fac | name_x

type_synonym dictionary = "name \<rightharpoonup> real"

definition updateValue :: "dictionary \<Rightarrow> name \<Rightarrow> real \<Rightarrow> real" where
  "updateValue d n v = (case d n of Some y \<Rightarrow> y | None \<Rightarrow> v)"

text \<open>
  \<^verbatim>\<open>BadProperty\<close> carries its message. \<open>KernelException\<close> stands for whatever the
  base class may throw.
\<close>

datatype error = BadProperty string | KernelException string

text \<open>
  Lines 256--292. The members are assigned in place, so an exception leaves the
  assignments made before it: the result is the exception, if any, and the state
  afterwards. The first statement calls \<^verbatim>\<open>ConnectionBase::set_status\<close>, which is not
  part of this file and touches no member of this class; \<open>base\<close> is the exception it
  throws, if any.
\<close>

definition set_status ::
  "error option \<Rightarrow> dictionary \<Rightarrow> tsodyks3_synapse \<Rightarrow> error option \<times> tsodyks3_synapse" where
  "set_status base d s =
     (case base of
        Some ex \<Rightarrow> (Some ex, s)
      | None \<Rightarrow>
         (let s1 = s\<lparr>m_weight := updateValue d name_weight (m_weight s)\<rparr>;
              s2 = s1\<lparr>m_U := updateValue d name_dU (m_U s1)\<rparr>
          in if m_U s2 > 1 \<or> m_U s2 < 0
             then (Some (BadProperty ''U must be in [0,1].''), s2)
             else
          let s3 = s2\<lparr>m_u := updateValue d name_u (m_u s2)\<rparr>
          in if m_u s3 > 1 \<or> m_u s3 < 0
             then (Some (BadProperty ''u must be in [0,1].''), s3)
             else
          let s4 = s3\<lparr>m_tau_rec := updateValue d name_tau_rec (m_tau_rec s3)\<rparr>
          in if m_tau_rec s4 \<le> 0
             then (Some (BadProperty ''tau_rec must be > 0.''), s4)
             else
          let s5 = s4\<lparr>m_tau_fac := updateValue d name_tau_fac (m_tau_fac s4)\<rparr>
          in if m_tau_fac s5 < 0
             then (Some (BadProperty ''tau_fac must be >= 0.''), s5)
             else
          let s6 = s5\<lparr>m_x := updateValue d name_x (m_x s5)\<rparr>
          in if m_x s6 > 1 \<or> m_x s6 < 0
             then (Some (BadProperty ''x must be in [0,1].''), s6)
             else (None, s6)))"

text \<open>
  The ranges that \<^verbatim>\<open>set_status\<close> enforces, as a predicate on a state: it holds
  exactly when none of the five conditions that throw is met.
\<close>

definition valid_parameters :: "tsodyks3_synapse \<Rightarrow> bool" where
  "valid_parameters s \<longleftrightarrow>
     0 \<le> m_U s \<and> m_U s \<le> 1 \<and> 0 \<le> m_u s \<and> m_u s \<le> 1 \<and> 0 < m_tau_rec s \<and>
     0 \<le> m_tau_fac s \<and> 0 \<le> m_x s \<and> m_x s \<le> 1"

text \<open>The state with every override of the dictionary written, none checked.\<close>

definition apply_overrides :: "dictionary \<Rightarrow> tsodyks3_synapse \<Rightarrow> tsodyks3_synapse" where
  "apply_overrides d s =
     s\<lparr>m_weight := updateValue d name_weight (m_weight s),
       m_U := updateValue d name_dU (m_U s),
       m_u := updateValue d name_u (m_u s),
       m_tau_rec := updateValue d name_tau_rec (m_tau_rec s),
       m_tau_fac := updateValue d name_tau_fac (m_tau_fac s),
       m_x := updateValue d name_x (m_x s)\<rparr>"

text \<open>
  What it means for the overrides themselves to be in range: the value stored under a
  name passes the check that \<^verbatim>\<open>set_status\<close> makes after assigning it
  (\<^verbatim>\<open>weight\<close> has no check).
\<close>

definition override_in_range :: "name \<Rightarrow> real \<Rightarrow> bool" where
  "override_in_range n v =
     (case n of
        name_weight \<Rightarrow> True
      | name_dU \<Rightarrow> 0 \<le> v \<and> v \<le> 1
      | name_u \<Rightarrow> 0 \<le> v \<and> v \<le> 1
      | name_tau_rec \<Rightarrow> 0 < v
      | name_tau_fac \<Rightarrow> 0 \<le> v
      | name_x \<Rightarrow> 0 \<le> v \<and> v \<le> 1)"

text \<open>All overrides of a dictionary are in range.\<close>

definition overrides_in_range :: "dictionary \<Rightarrow> bool" where
  "overrides_in_range d =
     list_all (\<lambda>n. case d n of None \<Rightarrow> True | Some v \<Rightarrow> override_in_range n v)
       [name_weight, name_dU, name_u, name_tau_rec, name_tau_fac, name_x]"

subsection \<open>Concrete inputs used in the examples below\<close>

definition spike_at :: "real \<Rightarrow> event" where
  "spike_at ms = \<lparr>stamp_ms = ms, ev_receiver = 0, ev_weight = 0, ev_delay_steps = 0, ev_rport = 0\<rparr>"

definition example_base :: connection_base where
  "example_base = \<lparr>get_target = (\<lambda>t. 7), get_delay_steps = 10, get_rport = 0\<rparr>"

text \<open>A dictionary that overrides all six members; the weight is always \<open>-7\<close>.\<close>

definition all_overrides :: "real \<Rightarrow> real \<Rightarrow> real \<Rightarrow> real \<Rightarrow> real \<Rightarrow> dictionary" where
  "all_overrides U u tau_rec tau_fac x =
     [name_weight \<mapsto> - 7, name_dU \<mapsto> U, name_u \<mapsto> u, name_tau_rec \<mapsto> tau_rec,
      name_tau_fac \<mapsto> tau_fac, name_x \<mapsto> x]"

text \<open>The state of a new synapse after its first spike at time 0 (see \<open>C2\<close> below).\<close>

definition after_first_spike :: tsodyks3_synapse where
  "after_first_spike = new_tsodyks3_synapse\<lparr>m_u := 3 / 4, m_x := 1 / 4\<rparr>"

text \<open>A synapse with facilitation switched on.\<close>

definition facilitating_synapse :: tsodyks3_synapse where
  "facilitating_synapse = new_tsodyks3_synapse\<lparr>m_u := 3 / 4, m_tau_fac := 100\<rparr>"

section \<open>Properties of send\<close>

subsection \<open>The unit interval is preserved\<close>

lemma x_decay_range:
  assumes "0 < m_tau_rec s" "m_t_lastspike s \<le> t_spike"
  shows "0 < x_decay t_spike s \<and> x_decay t_spike s \<le> 1"
  using assms by (simp add: x_decay_def divide_nonpos_pos)

lemma u_decay_range:
  assumes "0 \<le> m_tau_fac s" "m_t_lastspike s \<le> t_spike"
  shows "0 \<le> u_decay t_spike s \<and> u_decay t_spike s \<le> 1"
  using assms by (simp add: u_decay_def divide_nonpos_nonneg)

text \<open>Moving from \<open>a\<close> towards \<open>b\<close> by a fraction \<open>k\<close> stays between them.\<close>

lemma convex_unit:
  fixes a b k :: real
  assumes "0 \<le> a" "a \<le> 1" "0 \<le> b" "b \<le> 1" "0 \<le> k" "k \<le> 1"
  shows "0 \<le> a + (b - a) * k \<and> a + (b - a) * k \<le> 1"
proof -
  have eq: "a + (b - a) * k = (1 - k) * a + k * b" by (simp add: algebra_simps)
  have "0 \<le> (1 - k) * a" "0 \<le> k * b" using assms by simp_all
  moreover have "(1 - k) * a \<le> (1 - k) * 1" "k * b \<le> k * 1"
    using assms by (intro mult_left_mono; simp)+
  ultimately show ?thesis unfolding eq by simp
qed

lemma valid_parametersD:
  assumes "valid_parameters s"
  shows "0 \<le> m_U s" "m_U s \<le> 1" "0 \<le> m_u s" "m_u s \<le> 1"
    "0 \<le> m_x s" "m_x s \<le> 1" "0 < m_tau_rec s" "0 \<le> m_tau_fac s"
  using assms by (simp_all add: valid_parameters_def)

lemma decay_valid:
  assumes "valid_parameters s" "m_t_lastspike s \<le> t_spike"
  shows "valid_parameters (decay t_spike s)"
proof -
  note v = valid_parametersD [OF assms(1)]
  have xd: "0 \<le> x_decay t_spike s" "x_decay t_spike s \<le> 1"
    using x_decay_range [of s t_spike] v assms(2) by simp_all
  have ud: "0 \<le> u_decay t_spike s" "u_decay t_spike s \<le> 1"
    using u_decay_range [of s t_spike] v assms(2) by simp_all
  have x: "0 \<le> 1 + (m_x s - 1) * x_decay t_spike s \<and> 1 + (m_x s - 1) * x_decay t_spike s \<le> 1"
    using convex_unit [of 1 "m_x s" "x_decay t_spike s"] v xd by simp
  have u: "0 \<le> m_U s + (m_u s - m_U s) * u_decay t_spike s \<and>
           m_U s + (m_u s - m_U s) * u_decay t_spike s \<le> 1"
    using convex_unit [of "m_U s" "m_u s" "u_decay t_spike s"] v ud by simp
  show ?thesis using x u v by (simp add: valid_parameters_def decay_def)
qed

lemma facilitate_valid:
  assumes "valid_parameters s"
  shows "valid_parameters (facilitate s)"
proof -
  note v = valid_parametersD [OF assms]
  have "0 \<le> m_u s + (1 - m_u s) * m_U s \<and> m_u s + (1 - m_u s) * m_U s \<le> 1"
    using convex_unit [of "m_u s" 1 "m_U s"] v by simp
  then show ?thesis using v by (simp add: valid_parameters_def facilitate_def mult.commute)
qed

lemma deplete_valid:
  assumes "valid_parameters s"
  shows "valid_parameters (deplete s)"
proof -
  note v = valid_parametersD [OF assms]
  have "0 \<le> m_x s + (0 - m_x s) * m_u s \<and> m_x s + (0 - m_x s) * m_u s \<le> 1"
    using convex_unit [of "m_x s" 0 "m_u s"] v by simp
  then show ?thesis using v by (simp add: valid_parameters_def deplete_def mult.commute)
qed

lemma send_valid:
  assumes "valid_parameters s" "m_t_lastspike s \<le> stamp_ms e"
  shows "valid_parameters (snd (send e t cb s))"
proof -
  have "valid_parameters (deplete (facilitate (decay (stamp_ms e) s)))"
    using assms by (intro deplete_valid facilitate_valid decay_valid)
  then show ?thesis by (simp add: send_def Let_def valid_parameters_def)
qed

lemma send_t_lastspike: "m_t_lastspike (snd (send e t cb s)) = stamp_ms e"
  by (simp add: send_def Let_def)

lemma send_all_valid:
  "valid_parameters s \<Longrightarrow> sorted (m_t_lastspike s # map stamp_ms es) \<Longrightarrow>
   \<forall>r \<in> set (send_all es t cb s). valid_parameters (snd r)"
proof (induction es arbitrary: s)
  case Nil
  then show ?case by simp
next
  case (Cons e es)
  let ?s = "snd (send e t cb s)"
  from Cons.prems have le: "m_t_lastspike s \<le> stamp_ms e" by simp
  with Cons.prems have v: "valid_parameters ?s" by (intro send_valid)
  from Cons.prems have "sorted (m_t_lastspike ?s # map stamp_ms es)"
    by (simp add: send_t_lastspike)
  with v have "\<forall>r \<in> set (send_all es t cb ?s). valid_parameters (snd r)"
    by (rule Cons.IH)
  with v show ?case by simp
qed

text \<open>
  Claim C1. Start from a state with valid parameters (\<open>U\<close>, \<open>u\<close>, \<open>x\<close> in \<open>[0,1]\<close>,
  \<open>tau_rec > 0\<close>, \<open>tau_fac \<ge> 0\<close>) and deliver spikes whose time stamps do not
  decrease, the first being no earlier than \<open>t_lastspike\<close>. Then after every call of
  \<^verbatim>\<open>send\<close> the members \<open>u\<close> and \<open>x\<close> are in \<open>[0,1]\<close>. \<open>send\<close> contains no clamp:
  the bounds follow from the formulas alone.
\<close>

theorem send_keeps_u_x_in_unit_interval:
  assumes "valid_parameters s"
    and "sorted (m_t_lastspike s # map stamp_ms es)"
  shows "\<forall>r \<in> set (send_all es t cb s).
           0 \<le> m_u (snd r) \<and> m_u (snd r) \<le> 1 \<and> 0 \<le> m_x (snd r) \<and> m_x (snd r) \<le> 1"
proof
  fix r
  assume "r \<in> set (send_all es t cb s)"
  with send_all_valid [OF assms] have "valid_parameters (snd r)" by blast
  then show "0 \<le> m_u (snd r) \<and> m_u (snd r) \<le> 1 \<and> 0 \<le> m_x (snd r) \<and> m_x (snd r) \<le> 1"
    by (simp add: valid_parameters_def)
qed

theorem send_keeps_u_x_in_unit_interval_witness:
  "valid_parameters new_tsodyks3_synapse \<and>
   sorted (m_t_lastspike new_tsodyks3_synapse # map stamp_ms [spike_at 0, spike_at 800, spike_at 800]) \<and>
   length (send_all [spike_at 0, spike_at 800, spike_at 800] 0 example_base new_tsodyks3_synapse) = 3 \<and>
   list_all (\<lambda>r. 0 \<le> m_u (snd r) \<and> m_u (snd r) \<le> 1 \<and> 0 \<le> m_x (snd r) \<and> m_x (snd r) \<le> 1)
     (send_all [spike_at 0, spike_at 800, spike_at 800] 0 example_base new_tsodyks3_synapse)"
proof -
  have v: "valid_parameters new_tsodyks3_synapse"
    by (simp add: valid_parameters_def new_tsodyks3_synapse_def)
  have o: "sorted (m_t_lastspike new_tsodyks3_synapse #
                   map stamp_ms [spike_at 0, spike_at 800, spike_at 800])"
    by (simp add: new_tsodyks3_synapse_def spike_at_def)
  have l: "length (send_all [spike_at 0, spike_at 800, spike_at 800] 0 example_base
                     new_tsodyks3_synapse) = 3"
    by simp
  from v o l send_keeps_u_x_in_unit_interval [OF v o, of 0 example_base]
  show ?thesis unfolding list_all_iff by blast
qed

subsection \<open>The scenario of the specification\<close>

lemmas send_unfold =
  send_def Let_def deplete_def facilitate_def decay_def x_decay_def u_decay_def

text \<open>Seven terms of the series of \<open>exp\<close> at \<open>-1\<close> and a bound on the remainder.\<close>

lemma exp_minus_one_bounds: "3678 / 10000 < exp (- 1 :: real) \<and> exp (- 1 :: real) < 3680 / 10000"
proof -
  obtain t :: real where t: "\<bar>t\<bar> \<le> \<bar>- 1 :: real\<bar>"
    and e: "exp (- 1 :: real) = (\<Sum>m<8. (- 1) ^ m / fact m) + exp t / fact 8 * (- 1) ^ 8"
    using Maclaurin_exp_le [of "- 1" 8] by blast
  have s: "(\<Sum>m<8. (- 1 :: real) ^ m / fact m) = 103 / 280"
    by (simp add: numeral_eq_Suc)
  have "exp t \<le> exp 1" using t by simp
  then have up: "exp t \<le> 3" using exp_le by linarith
  have lo: "0 < exp t" by simp
  have r: "exp t / fact 8 * (- 1) ^ 8 = exp t / 40320"
    by (simp add: fact_numeral)
  from e s r have "exp (- 1 :: real) = 103 / 280 + exp t / 40320" by simp
  with up lo show ?thesis by linarith
qed

lemma first_spike_state:
  "snd (send (e\<lparr>stamp_ms := 0\<rparr>) t cb new_tsodyks3_synapse) = after_first_spike"
  by (simp add: send_unfold new_tsodyks3_synapse_def after_first_spike_def)

lemma first_spike_weight:
  "ev_weight (fst (send (e\<lparr>stamp_ms := 0\<rparr>) t cb new_tsodyks3_synapse)) = 3 / 4"
  by (simp add: send_unfold new_tsodyks3_synapse_def)

lemma second_spike_weight:
  "ev_weight (fst (send (e\<lparr>stamp_ms := 800\<rparr>) t cb after_first_spike))
    = 3 / 4 * (1 + (1 / 4 - 1) * exp (- 1))"
  by (simp add: send_unfold new_tsodyks3_synapse_def after_first_spike_def)

lemma second_spike_x:
  "m_x (snd (send (e\<lparr>stamp_ms := 800\<rparr>) t cb after_first_spike))
    = 1 / 4 * (1 + (1 / 4 - 1) * exp (- 1))"
  by (simp add: send_unfold new_tsodyks3_synapse_def after_first_spike_def algebra_simps)

lemma second_spike_u:
  "m_u (snd (send (e\<lparr>stamp_ms := 800\<rparr>) t cb after_first_spike)) = 3 / 4"
  by (simp add: send_unfold new_tsodyks3_synapse_def after_first_spike_def)

lemma approx_weight: "\<bar>3 / 4 * (1 + (1 / 4 - 1) * exp (- 1 :: real)) - 543 / 1000\<bar> < 5 / 10000"
  using exp_minus_one_bounds by (simp add: abs_less_iff)

lemma approx_x: "\<bar>1 / 4 * (1 + (1 / 4 - 1) * exp (- 1 :: real)) - 181 / 1000\<bar> < 5 / 10000"
  using exp_minus_one_bounds by (simp add: abs_less_iff)

text \<open>
  Claim C2. A new synapse (\<open>weight = 1\<close>, \<open>U = u = 0.5\<close>, \<open>x = 1\<close>,
  \<open>tau_rec = 800\<close>, \<open>tau_fac = 0\<close>, \<open>t_lastspike = 0\<close>) that receives a spike at
  time 0 emits the weight 0.75 and is left with \<open>x = 0.25\<close>, \<open>u = 0.75\<close>,
  \<open>t_lastspike = 0\<close>. A second spike at time 800 from that state emits the weight
  \<open>0.75 * (1 + (0.25 - 1) * exp (-1))\<close>, which is 0.543 to three decimal places, and
  leaves \<open>x\<close> at 0.181 to three decimal places and \<open>u = 0.75\<close>.
\<close>

theorem default_scenario:
  "ev_weight (fst (send (e\<lparr>stamp_ms := 0\<rparr>) t cb new_tsodyks3_synapse)) = 3 / 4 \<and>
   m_x (snd (send (e\<lparr>stamp_ms := 0\<rparr>) t cb new_tsodyks3_synapse)) = 1 / 4 \<and>
   m_u (snd (send (e\<lparr>stamp_ms := 0\<rparr>) t cb new_tsodyks3_synapse)) = 3 / 4 \<and>
   m_t_lastspike (snd (send (e\<lparr>stamp_ms := 0\<rparr>) t cb new_tsodyks3_synapse)) = 0 \<and>
   snd (send (e\<lparr>stamp_ms := 0\<rparr>) t cb new_tsodyks3_synapse) = after_first_spike \<and>
   ev_weight (fst (send (e'\<lparr>stamp_ms := 800\<rparr>) t' cb' after_first_spike))
     = 3 / 4 * (1 + (1 / 4 - 1) * exp (- 1)) \<and>
   \<bar>ev_weight (fst (send (e'\<lparr>stamp_ms := 800\<rparr>) t' cb' after_first_spike)) - 543 / 1000\<bar> < 5 / 10000 \<and>
   \<bar>m_x (snd (send (e'\<lparr>stamp_ms := 800\<rparr>) t' cb' after_first_spike)) - 181 / 1000\<bar> < 5 / 10000 \<and>
   m_u (snd (send (e'\<lparr>stamp_ms := 800\<rparr>) t' cb' after_first_spike)) = 3 / 4"
  unfolding first_spike_state first_spike_weight second_spike_weight second_spike_x second_spike_u
  using approx_weight approx_x by (simp add: after_first_spike_def new_tsodyks3_synapse_def)

subsection \<open>The order of the steps\<close>

text \<open>
  Claim C3. The weight of the emitted event is \<open>weight * x * u\<close> with \<open>u\<close> after
  facilitation and \<open>x\<close> after the decay but before the depletion; the depletion
  \<open>x = x - u * x\<close> comes after the weight, and \<open>t_lastspike\<close> ends as the time
  stamp of the spike. The order matters: for the first spike of a new synapse the source
  emits 0.75, whereas depleting before the weight is computed would emit 0.1875 and
  computing the weight before the facilitation would emit 0.5. (The first part writes
  the decay factors as the source does and says nothing about their values.)
\<close>

theorem send_weight_before_depletion:
  "(let h = stamp_ms e - m_t_lastspike s;
        x_decayed = 1 + (m_x s - 1) * exp (- h / m_tau_rec s);
        u_decayed = m_U s + (m_u s - m_U s) *
                      (if m_tau_fac s < 1 / 10 ^ 10 then 0 else exp (- h / m_tau_fac s));
        u_facilitated = u_decayed + m_U s * (1 - u_decayed)
    in ev_weight (fst (send e t cb s)) = m_weight s * x_decayed * u_facilitated \<and>
       m_u (snd (send e t cb s)) = u_facilitated \<and>
       m_x (snd (send e t cb s)) = x_decayed - u_facilitated * x_decayed \<and>
       m_t_lastspike (snd (send e t cb s)) = stamp_ms e) \<and>
   ev_weight (fst (send (spike_at 0) 0 example_base new_tsodyks3_synapse)) = 3 / 4 \<and>
   ev_weight (fst (send_deplete_first (spike_at 0) 0 example_base new_tsodyks3_synapse)) = 3 / 16 \<and>
   ev_weight (fst (send_weight_first (spike_at 0) 0 example_base new_tsodyks3_synapse)) = 1 / 2"
proof -
  have general:
    "(let h = stamp_ms e - m_t_lastspike s;
        x_decayed = 1 + (m_x s - 1) * exp (- h / m_tau_rec s);
        u_decayed = m_U s + (m_u s - m_U s) *
                      (if m_tau_fac s < 1 / 10 ^ 10 then 0 else exp (- h / m_tau_fac s));
        u_facilitated = u_decayed + m_U s * (1 - u_decayed)
    in ev_weight (fst (send e t cb s)) = m_weight s * x_decayed * u_facilitated \<and>
       m_u (snd (send e t cb s)) = u_facilitated \<and>
       m_x (snd (send e t cb s)) = x_decayed - u_facilitated * x_decayed \<and>
       m_t_lastspike (snd (send e t cb s)) = stamp_ms e)"
    unfolding send_unfold by simp
  have source: "ev_weight (fst (send (spike_at 0) 0 example_base new_tsodyks3_synapse)) = 3 / 4"
    by (simp add: send_unfold spike_at_def new_tsodyks3_synapse_def)
  have deplete_first:
    "ev_weight (fst (send_deplete_first (spike_at 0) 0 example_base new_tsodyks3_synapse)) = 3 / 16"
    by (simp add: send_deplete_first_def send_unfold spike_at_def new_tsodyks3_synapse_def)
  have weight_first:
    "ev_weight (fst (send_weight_first (spike_at 0) 0 example_base new_tsodyks3_synapse)) = 1 / 2"
    by (simp add: send_weight_first_def send_unfold spike_at_def new_tsodyks3_synapse_def)
  from general source deplete_first weight_first show ?thesis by blast
qed

subsection \<open>Two spikes with the same time stamp\<close>

text \<open>
  Claim C5 says that for \<open>h = 0\<close> both decay factors are 1, so that neither \<open>x\<close>
  nor \<open>u\<close> changes before the facilitation step. That fails for \<open>u\<close> whenever
  \<open>tau_fac < 1e-10\<close>, the default included: the guard on line 207 makes
  \<open>u_decay\<close> zero whatever \<open>h\<close> is. In the state after the first spike of a new
  synapse (\<open>U = 0.5\<close>, \<open>u = 0.75\<close>, \<open>tau_fac = 0\<close>, \<open>t_lastspike = 0\<close>) a second spike
  at time 0 has \<open>u_decay = 0\<close> and resets \<open>u\<close> to 0.5 before facilitating.
\<close>

theorem zero_interval_counterexample:
  "stamp_ms (spike_at 0) - m_t_lastspike after_first_spike = 0 \<and>
   u_decay (stamp_ms (spike_at 0)) after_first_spike = 0 \<and>
   m_u (decay (stamp_ms (spike_at 0)) after_first_spike) = 1 / 2 \<and>
   m_u after_first_spike = 3 / 4 \<and>
   \<not> (x_decay (stamp_ms (spike_at 0)) after_first_spike = 1 \<and>
      u_decay (stamp_ms (spike_at 0)) after_first_spike = 1 \<and>
      m_x (decay (stamp_ms (spike_at 0)) after_first_spike) = m_x after_first_spike \<and>
      m_u (decay (stamp_ms (spike_at 0)) after_first_spike) = m_u after_first_spike)"
  by (simp add: send_unfold spike_at_def after_first_spike_def new_tsodyks3_synapse_def)

text \<open>
  Claim C5 as amended. For every state and every spike whose time stamp equals
  \<open>t_lastspike\<close> (\<open>h = 0\<close>): \<open>x_decay = 1\<close>, provided \<open>tau_rec\<close> is not zero (at
  \<open>tau_rec = 0\<close> the program divides zero by zero); \<open>u_decay = 1\<close> when \<open>tau_fac\<close> is
  at least \<open>1e-10\<close>; and when \<open>tau_fac\<close> is below \<open>1e-10\<close>, \<open>u_decay = 0\<close> and \<open>u\<close>
  before facilitation is \<open>U\<close>, not its value on entry.

  Nothing is said about \<open>x\<close> before facilitation, nor about \<open>u\<close> before facilitation
  when \<open>u_decay = 1\<close>: lines 209 and 210 recompute them as \<open>1 + (x - 1) * x_decay\<close>
  and \<open>U + (u - U) * u_decay\<close>, which return the entry value in exact arithmetic but
  are rounded in the program's doubles, so equality with the entry value is not a
  property of the program.
\<close>

theorem zero_interval_decay_factors:
  assumes "stamp_ms e = m_t_lastspike s"
  shows "(m_tau_rec s \<noteq> 0 \<longrightarrow> x_decay (stamp_ms e) s = 1) \<and>
         (\<not> m_tau_fac s < 1 / 10 ^ 10 \<longrightarrow> u_decay (stamp_ms e) s = 1) \<and>
         (m_tau_fac s < 1 / 10 ^ 10 \<longrightarrow>
            u_decay (stamp_ms e) s = 0 \<and> m_u (decay (stamp_ms e) s) = m_U s)"
  using assms by (simp add: decay_def x_decay_def u_decay_def)

theorem zero_interval_decay_factors_witness:
  "stamp_ms (spike_at 0) = m_t_lastspike facilitating_synapse \<and>
   m_tau_rec facilitating_synapse \<noteq> 0 \<and>
   \<not> m_tau_fac facilitating_synapse < 1 / 10 ^ 10 \<and>
   x_decay (stamp_ms (spike_at 0)) facilitating_synapse = 1 \<and>
   u_decay (stamp_ms (spike_at 0)) facilitating_synapse = 1 \<and>
   stamp_ms (spike_at 0) = m_t_lastspike after_first_spike \<and>
   m_tau_rec after_first_spike \<noteq> 0 \<and>
   m_tau_fac after_first_spike < 1 / 10 ^ 10 \<and>
   x_decay (stamp_ms (spike_at 0)) after_first_spike = 1 \<and>
   u_decay (stamp_ms (spike_at 0)) after_first_spike = 0 \<and>
   m_u after_first_spike = 3 / 4 \<and>
   m_u (decay (stamp_ms (spike_at 0)) after_first_spike) = 1 / 2"
proof -
  have f: "stamp_ms (spike_at 0) = m_t_lastspike facilitating_synapse"
    "m_tau_rec facilitating_synapse \<noteq> 0" "\<not> m_tau_fac facilitating_synapse < 1 / 10 ^ 10"
    by (simp_all add: spike_at_def facilitating_synapse_def new_tsodyks3_synapse_def)
  have a: "stamp_ms (spike_at 0) = m_t_lastspike after_first_spike"
    "m_tau_rec after_first_spike \<noteq> 0" "m_tau_fac after_first_spike < 1 / 10 ^ 10"
    "m_u after_first_spike = 3 / 4" "m_U after_first_spike = 1 / 2"
    by (simp_all add: spike_at_def after_first_spike_def new_tsodyks3_synapse_def)
  from f a zero_interval_decay_factors [OF f(1)] zero_interval_decay_factors [OF a(1)]
  show ?thesis by simp
qed

subsection \<open>The guard on the facilitation time constant\<close>

text \<open>
  Claim C6. \<open>u_decay\<close> is 0 when \<open>tau_fac < 1e-10\<close> (whatever the interval: the
  quotient by \<open>tau_fac\<close> is not evaluated) and \<open>exp (-h / tau_fac)\<close> otherwise. With
  \<open>tau_fac = 0\<close> the decay step sets \<open>u\<close> to \<open>U\<close> and the facilitation step raises
  it to \<open>U + U * (1 - U)\<close>, which is the value of \<open>u\<close> on return, whatever \<open>u\<close> was
  on entry.
\<close>

theorem u_decay_guard:
  "(m_tau_fac s < 1 / 10 ^ 10 \<longrightarrow> u_decay t_spike s = 0) \<and>
   (\<not> m_tau_fac s < 1 / 10 ^ 10 \<longrightarrow>
      u_decay t_spike s = exp (- (t_spike - m_t_lastspike s) / m_tau_fac s)) \<and>
   (m_tau_fac s = 0 \<longrightarrow>
      m_u (decay (stamp_ms e) s) = m_U s \<and>
      m_u (facilitate (decay (stamp_ms e) s)) = m_U s + m_U s * (1 - m_U s) \<and>
      m_u (snd (send e t cb s)) = m_U s + m_U s * (1 - m_U s) \<and>
      (\<forall>v. m_u (snd (send e t cb (s\<lparr>m_u := v\<rparr>))) = m_u (snd (send e t cb s))))"
  by (simp add: send_unfold)

theorem u_decay_guard_witness:
  "m_tau_fac after_first_spike < 1 / 10 ^ 10 \<and> m_tau_fac after_first_spike = 0 \<and>
   u_decay 800 after_first_spike = 0 \<and>
   m_u after_first_spike = 3 / 4 \<and>
   m_u (decay (stamp_ms (spike_at 800)) after_first_spike) = 1 / 2 \<and>
   m_u (snd (send (spike_at 800) 0 example_base after_first_spike)) = 3 / 4 \<and>
   m_u (snd (send (spike_at 800) 0 example_base (after_first_spike\<lparr>m_u := 1 / 10\<rparr>))) = 3 / 4 \<and>
   \<not> m_tau_fac facilitating_synapse < 1 / 10 ^ 10 \<and>
   u_decay 100 facilitating_synapse = exp (- 1)"
proof -
  have a: "m_tau_fac after_first_spike < 1 / 10 ^ 10" "m_tau_fac after_first_spike = 0"
    "m_u after_first_spike = 3 / 4"
    by (simp_all add: after_first_spike_def new_tsodyks3_synapse_def)
  have U: "m_U after_first_spike = 1 / 2"
    by (simp add: after_first_spike_def new_tsodyks3_synapse_def)
  have f: "\<not> m_tau_fac facilitating_synapse < 1 / 10 ^ 10"
    by (simp add: facilitating_synapse_def new_tsodyks3_synapse_def)
  have q: "- (100 - m_t_lastspike facilitating_synapse) / m_tau_fac facilitating_synapse = - 1"
    by (simp add: facilitating_synapse_def new_tsodyks3_synapse_def)
  note g = u_decay_guard [of after_first_spike 800 "spike_at 800" 0 example_base]
  note h = u_decay_guard [of facilitating_synapse 100 "spike_at 0" 0 example_base]
  have 1: "u_decay 800 after_first_spike = 0" using g a by blast
  have 2: "m_u (decay (stamp_ms (spike_at 800)) after_first_spike) = 1 / 2"
    using g a U by simp
  have 3: "m_u (snd (send (spike_at 800) 0 example_base after_first_spike)) = 3 / 4"
    using g a unfolding U by simp
  have "m_u (snd (send (spike_at 800) 0 example_base (after_first_spike\<lparr>m_u := 1 / 10\<rparr>)))
      = m_u (snd (send (spike_at 800) 0 example_base after_first_spike))"
    using g a by blast
  with 3 have 4:
    "m_u (snd (send (spike_at 800) 0 example_base (after_first_spike\<lparr>m_u := 1 / 10\<rparr>))) = 3 / 4"
    by simp
  have 5: "u_decay 100 facilitating_synapse = exp (- 1)"
    using h f unfolding q by blast
  from a f 1 2 3 4 5 show ?thesis by blast
qed

subsection \<open>What send leaves alone\<close>

text \<open>
  Claim C9. \<^verbatim>\<open>send\<close> changes no member other than \<open>u\<close>, \<open>x\<close> and
  \<open>t_lastspike\<close>: \<open>weight\<close>, \<open>U\<close>, \<open>tau_rec\<close> and \<open>tau_fac\<close> are on return what
  they were on entry.
\<close>

theorem send_changes_only_u_x_t_lastspike:
  "m_weight (snd (send e t cb s)) = m_weight s \<and> m_U (snd (send e t cb s)) = m_U s \<and>
   m_tau_rec (snd (send e t cb s)) = m_tau_rec s \<and> m_tau_fac (snd (send e t cb s)) = m_tau_fac s \<and>
   snd (send e t cb s) =
     s\<lparr>m_u := m_u (snd (send e t cb s)), m_x := m_x (snd (send e t cb s)),
       m_t_lastspike := m_t_lastspike (snd (send e t cb s))\<rparr>"
  by (simp add: send_def Let_def deplete_def facilitate_def decay_def)

section \<open>Properties of set_status\<close>

subsection \<open>Which exception, and what it leaves behind\<close>

lemma updateValue_in_range:
  "(case d k of None \<Rightarrow> True | Some v \<Rightarrow> override_in_range k v) \<Longrightarrow> override_in_range k v0 \<Longrightarrow>
   override_in_range k (updateValue d k v0)"
  by (cases "d k") (auto simp: updateValue_def)

lemma valid_apply_overrides:
  assumes v: "valid_parameters s" and d: "overrides_in_range d"
  shows "valid_parameters (apply_overrides d s)"
proof -
  have "override_in_range name_dU (updateValue d name_dU (m_U s))"
    using v d by (intro updateValue_in_range)
      (simp_all add: valid_parameters_def override_in_range_def overrides_in_range_def)
  moreover have "override_in_range name_u (updateValue d name_u (m_u s))"
    using v d by (intro updateValue_in_range)
      (simp_all add: valid_parameters_def override_in_range_def overrides_in_range_def)
  moreover have "override_in_range name_tau_rec (updateValue d name_tau_rec (m_tau_rec s))"
    using v d by (intro updateValue_in_range)
      (simp_all add: valid_parameters_def override_in_range_def overrides_in_range_def)
  moreover have "override_in_range name_tau_fac (updateValue d name_tau_fac (m_tau_fac s))"
    using v d by (intro updateValue_in_range)
      (simp_all add: valid_parameters_def override_in_range_def overrides_in_range_def)
  moreover have "override_in_range name_x (updateValue d name_x (m_x s))"
    using v d by (intro updateValue_in_range)
      (simp_all add: valid_parameters_def override_in_range_def overrides_in_range_def)
  ultimately show ?thesis
    by (simp add: valid_parameters_def apply_overrides_def override_in_range_def)
qed

text \<open>
  The outcome in terms of the state with all overrides written: the checks run in the
  order \<open>U\<close>, \<open>u\<close>, \<open>tau_rec\<close>, \<open>tau_fac\<close>, \<open>x\<close> and the first that fails throws.
\<close>

lemma set_status_ok_iff:
  "(fst (set_status None d s) = None) = valid_parameters (apply_overrides d s)"
  by (auto simp: set_status_def Let_def valid_parameters_def apply_overrides_def)

lemma set_status_ok_state:
  "fst (set_status None d s) = None \<Longrightarrow> snd (set_status None d s) = apply_overrides d s"
  unfolding set_status_ok_iff
  by (simp add: set_status_def Let_def apply_overrides_def valid_parameters_def)

lemma set_status_U_iff:
  "(fst (set_status None d s) = Some (BadProperty ''U must be in [0,1].'')) =
   (m_U (apply_overrides d s) > 1 \<or> m_U (apply_overrides d s) < 0)"
  by (auto simp: set_status_def Let_def apply_overrides_def)

lemma set_status_u_iff:
  "(fst (set_status None d s) = Some (BadProperty ''u must be in [0,1].'')) =
   (\<not> (m_U (apply_overrides d s) > 1 \<or> m_U (apply_overrides d s) < 0) \<and>
    (m_u (apply_overrides d s) > 1 \<or> m_u (apply_overrides d s) < 0))"
  by (auto simp: set_status_def Let_def apply_overrides_def)

lemma set_status_tau_rec_iff:
  "(fst (set_status None d s) = Some (BadProperty ''tau_rec must be > 0.'')) =
   (\<not> (m_U (apply_overrides d s) > 1 \<or> m_U (apply_overrides d s) < 0) \<and>
    \<not> (m_u (apply_overrides d s) > 1 \<or> m_u (apply_overrides d s) < 0) \<and>
    m_tau_rec (apply_overrides d s) \<le> 0)"
  by (auto simp: set_status_def Let_def apply_overrides_def)

lemma set_status_tau_fac_iff:
  "(fst (set_status None d s) = Some (BadProperty ''tau_fac must be >= 0.'')) =
   (\<not> (m_U (apply_overrides d s) > 1 \<or> m_U (apply_overrides d s) < 0) \<and>
    \<not> (m_u (apply_overrides d s) > 1 \<or> m_u (apply_overrides d s) < 0) \<and>
    \<not> m_tau_rec (apply_overrides d s) \<le> 0 \<and>
    m_tau_fac (apply_overrides d s) < 0)"
  by (auto simp: set_status_def Let_def apply_overrides_def)

lemma set_status_x_iff:
  "(fst (set_status None d s) = Some (BadProperty ''x must be in [0,1].'')) =
   (\<not> (m_U (apply_overrides d s) > 1 \<or> m_U (apply_overrides d s) < 0) \<and>
    \<not> (m_u (apply_overrides d s) > 1 \<or> m_u (apply_overrides d s) < 0) \<and>
    \<not> m_tau_rec (apply_overrides d s) \<le> 0 \<and>
    \<not> m_tau_fac (apply_overrides d s) < 0 \<and>
    (m_x (apply_overrides d s) > 1 \<or> m_x (apply_overrides d s) < 0))"
  by (auto simp: set_status_def Let_def apply_overrides_def)

lemma set_status_BadProperty_iff:
  "(\<exists>m. fst (set_status None d s) = Some (BadProperty m)) =
   (m_U (apply_overrides d s) > 1 \<or> m_U (apply_overrides d s) < 0 \<or>
    m_u (apply_overrides d s) > 1 \<or> m_u (apply_overrides d s) < 0 \<or>
    m_tau_rec (apply_overrides d s) \<le> 0 \<or> m_tau_fac (apply_overrides d s) < 0 \<or>
    m_x (apply_overrides d s) > 1 \<or> m_x (apply_overrides d s) < 0)"
  by (auto simp: set_status_def Let_def apply_overrides_def)

text \<open>The state that an exception leaves behind, for each of the five checks.\<close>

lemma set_status_U_state:
  "fst (set_status None d s) = Some (BadProperty ''U must be in [0,1].'') \<Longrightarrow>
   snd (set_status None d s) =
     s\<lparr>m_weight := updateValue d name_weight (m_weight s),
       m_U := updateValue d name_dU (m_U s)\<rparr>"
  unfolding set_status_U_iff by (simp add: set_status_def Let_def apply_overrides_def)

lemma set_status_u_state:
  "fst (set_status None d s) = Some (BadProperty ''u must be in [0,1].'') \<Longrightarrow>
   snd (set_status None d s) =
     s\<lparr>m_weight := updateValue d name_weight (m_weight s),
       m_U := updateValue d name_dU (m_U s),
       m_u := updateValue d name_u (m_u s)\<rparr>"
  unfolding set_status_u_iff by (simp add: set_status_def Let_def apply_overrides_def)

lemma set_status_tau_rec_state:
  "fst (set_status None d s) = Some (BadProperty ''tau_rec must be > 0.'') \<Longrightarrow>
   snd (set_status None d s) =
     s\<lparr>m_weight := updateValue d name_weight (m_weight s),
       m_U := updateValue d name_dU (m_U s),
       m_u := updateValue d name_u (m_u s),
       m_tau_rec := updateValue d name_tau_rec (m_tau_rec s)\<rparr>"
  unfolding set_status_tau_rec_iff by (simp add: set_status_def Let_def apply_overrides_def)

lemma set_status_tau_fac_state:
  "fst (set_status None d s) = Some (BadProperty ''tau_fac must be >= 0.'') \<Longrightarrow>
   snd (set_status None d s) =
     s\<lparr>m_weight := updateValue d name_weight (m_weight s),
       m_U := updateValue d name_dU (m_U s),
       m_u := updateValue d name_u (m_u s),
       m_tau_rec := updateValue d name_tau_rec (m_tau_rec s),
       m_tau_fac := updateValue d name_tau_fac (m_tau_fac s)\<rparr>"
  unfolding set_status_tau_fac_iff by (simp add: set_status_def Let_def apply_overrides_def)

lemma set_status_x_state:
  "fst (set_status None d s) = Some (BadProperty ''x must be in [0,1].'') \<Longrightarrow>
   snd (set_status None d s) = apply_overrides d s"
  unfolding set_status_x_iff by (simp add: set_status_def Let_def apply_overrides_def)

lemma updateValue_other: "k \<noteq> k' \<Longrightarrow> updateValue (d(k' \<mapsto> w)) k v = updateValue d k v"
  by (simp add: updateValue_def)

lemma set_status_weight_unchecked:
  "fst (set_status None (d(name_weight \<mapsto> w)) s) = fst (set_status None d s)"
  by (simp add: set_status_def Let_def updateValue_other)

lemma set_status_weight_U_written:
  "m_weight (snd (set_status None d s)) = updateValue d name_weight (m_weight s) \<and>
   m_U (snd (set_status None d s)) = updateValue d name_dU (m_U s)"
  by (simp add: set_status_def Let_def)

lemma updateValue_idem: "updateValue d k (updateValue d k v) = updateValue d k v"
  by (simp add: updateValue_def split: option.splits)

lemma updateValue_absent: "k \<notin> dom d \<Longrightarrow> updateValue d k v = v"
  by (auto simp: updateValue_def split: option.splits)

lemmas example_eval =
  Let_def apply_overrides_def updateValue_def valid_parameters_def new_tsodyks3_synapse_def
  overrides_in_range_def override_in_range_def

text \<open>
  Claim C4. With the base class returning normally, \<^verbatim>\<open>set_status\<close> throws
  \<^verbatim>\<open>BadProperty\<close> exactly when, with the overrides of the dictionary written, \<open>U\<close> is
  outside \<open>[0,1]\<close>, or \<open>u\<close> is outside \<open>[0,1]\<close>, or \<open>tau_rec \<le> 0\<close>, or
  \<open>tau_fac < 0\<close>, or \<open>x\<close> is outside \<open>[0,1]\<close>. The message names the member and its
  bound (the first offender in the order of the checks). The offending value is in the
  state afterwards: nothing is rolled back. When every member is in range after the
  overrides, no exception is thrown; in particular a state with valid parameters
  accepts every dictionary whose overrides are all in range.
\<close>

theorem set_status_raises_iff_out_of_range:
  "let a = apply_overrides d s; r = set_status None d s in
     ((\<exists>m. fst r = Some (BadProperty m)) =
        (m_U a > 1 \<or> m_U a < 0 \<or> m_u a > 1 \<or> m_u a < 0 \<or> m_tau_rec a \<le> 0 \<or>
         m_tau_fac a < 0 \<or> m_x a > 1 \<or> m_x a < 0)) \<and>
     ((fst r = None) = valid_parameters a) \<and>
     ((fst r = Some (BadProperty ''U must be in [0,1].'')) = (m_U a > 1 \<or> m_U a < 0)) \<and>
     ((fst r = Some (BadProperty ''u must be in [0,1].'')) =
        (\<not> (m_U a > 1 \<or> m_U a < 0) \<and> (m_u a > 1 \<or> m_u a < 0))) \<and>
     ((fst r = Some (BadProperty ''tau_rec must be > 0.'')) =
        (\<not> (m_U a > 1 \<or> m_U a < 0) \<and> \<not> (m_u a > 1 \<or> m_u a < 0) \<and> m_tau_rec a \<le> 0)) \<and>
     ((fst r = Some (BadProperty ''tau_fac must be >= 0.'')) =
        (\<not> (m_U a > 1 \<or> m_U a < 0) \<and> \<not> (m_u a > 1 \<or> m_u a < 0) \<and> \<not> m_tau_rec a \<le> 0 \<and>
         m_tau_fac a < 0)) \<and>
     ((fst r = Some (BadProperty ''x must be in [0,1].'')) =
        (\<not> (m_U a > 1 \<or> m_U a < 0) \<and> \<not> (m_u a > 1 \<or> m_u a < 0) \<and> \<not> m_tau_rec a \<le> 0 \<and>
         \<not> m_tau_fac a < 0 \<and> (m_x a > 1 \<or> m_x a < 0))) \<and>
     (fst r = Some (BadProperty ''U must be in [0,1].'') \<longrightarrow> m_U (snd r) = m_U a) \<and>
     (fst r = Some (BadProperty ''u must be in [0,1].'') \<longrightarrow> m_u (snd r) = m_u a) \<and>
     (fst r = Some (BadProperty ''tau_rec must be > 0.'') \<longrightarrow> m_tau_rec (snd r) = m_tau_rec a) \<and>
     (fst r = Some (BadProperty ''tau_fac must be >= 0.'') \<longrightarrow> m_tau_fac (snd r) = m_tau_fac a) \<and>
     (fst r = Some (BadProperty ''x must be in [0,1].'') \<longrightarrow> m_x (snd r) = m_x a) \<and>
     (valid_parameters s \<and> overrides_in_range d \<longrightarrow> fst r = None \<and> snd r = a)"
proof -
  have U: "fst (set_status None d s) = Some (BadProperty ''U must be in [0,1].'') \<longrightarrow>
      m_U (snd (set_status None d s)) = m_U (apply_overrides d s)"
    using set_status_U_state [of d s] by (auto simp: apply_overrides_def)
  have u: "fst (set_status None d s) = Some (BadProperty ''u must be in [0,1].'') \<longrightarrow>
      m_u (snd (set_status None d s)) = m_u (apply_overrides d s)"
    using set_status_u_state [of d s] by (auto simp: apply_overrides_def)
  have tr: "fst (set_status None d s) = Some (BadProperty ''tau_rec must be > 0.'') \<longrightarrow>
      m_tau_rec (snd (set_status None d s)) = m_tau_rec (apply_overrides d s)"
    using set_status_tau_rec_state [of d s] by (auto simp: apply_overrides_def)
  have tf: "fst (set_status None d s) = Some (BadProperty ''tau_fac must be >= 0.'') \<longrightarrow>
      m_tau_fac (snd (set_status None d s)) = m_tau_fac (apply_overrides d s)"
    using set_status_tau_fac_state [of d s] by (auto simp: apply_overrides_def)
  have x: "fst (set_status None d s) = Some (BadProperty ''x must be in [0,1].'') \<longrightarrow>
      m_x (snd (set_status None d s)) = m_x (apply_overrides d s)"
    using set_status_x_state [of d s] by auto
  have ok: "valid_parameters s \<and> overrides_in_range d \<longrightarrow>
      fst (set_status None d s) = None \<and> snd (set_status None d s) = apply_overrides d s"
    using valid_apply_overrides [of s d] set_status_ok_iff [of d s] set_status_ok_state [of d s]
    by blast
  show ?thesis
    unfolding Let_def
    using set_status_BadProperty_iff [of d s] set_status_ok_iff [of d s] set_status_U_iff [of d s]
      set_status_u_iff [of d s] set_status_tau_rec_iff [of d s] set_status_tau_fac_iff [of d s]
      set_status_x_iff [of d s] U u tr tf x ok
    by blast
qed

theorem set_status_raises_iff_out_of_range_witness:
  "fst (set_status None [name_dU \<mapsto> 3 / 2] new_tsodyks3_synapse)
     = Some (BadProperty ''U must be in [0,1].'') \<and>
   m_U (snd (set_status None [name_dU \<mapsto> 3 / 2] new_tsodyks3_synapse)) = 3 / 2 \<and>
   fst (set_status None [name_u \<mapsto> - 1 / 10] new_tsodyks3_synapse)
     = Some (BadProperty ''u must be in [0,1].'') \<and>
   m_u (snd (set_status None [name_u \<mapsto> - 1 / 10] new_tsodyks3_synapse)) = - 1 / 10 \<and>
   fst (set_status None [name_tau_rec \<mapsto> 0] new_tsodyks3_synapse)
     = Some (BadProperty ''tau_rec must be > 0.'') \<and>
   m_tau_rec (snd (set_status None [name_tau_rec \<mapsto> 0] new_tsodyks3_synapse)) = 0 \<and>
   fst (set_status None [name_tau_fac \<mapsto> - 1] new_tsodyks3_synapse)
     = Some (BadProperty ''tau_fac must be >= 0.'') \<and>
   m_tau_fac (snd (set_status None [name_tau_fac \<mapsto> - 1] new_tsodyks3_synapse)) = - 1 \<and>
   fst (set_status None [name_x \<mapsto> 2] new_tsodyks3_synapse)
     = Some (BadProperty ''x must be in [0,1].'') \<and>
   m_x (snd (set_status None [name_x \<mapsto> 2] new_tsodyks3_synapse)) = 2 \<and>
   valid_parameters new_tsodyks3_synapse \<and>
   overrides_in_range [name_weight \<mapsto> - 3, name_dU \<mapsto> 1 / 5, name_tau_fac \<mapsto> 50] \<and>
   fst (set_status None [name_weight \<mapsto> - 3, name_dU \<mapsto> 1 / 5, name_tau_fac \<mapsto> 50]
          new_tsodyks3_synapse) = None \<and>
   snd (set_status None [name_weight \<mapsto> - 3, name_dU \<mapsto> 1 / 5, name_tau_fac \<mapsto> 50]
          new_tsodyks3_synapse)
     = new_tsodyks3_synapse\<lparr>m_weight := - 3, m_U := 1 / 5, m_tau_fac := 50\<rparr>"
proof -
  have 1: "fst (set_status None [name_dU \<mapsto> 3 / 2] new_tsodyks3_synapse)
             = Some (BadProperty ''U must be in [0,1].'') \<and>
           m_U (snd (set_status None [name_dU \<mapsto> 3 / 2] new_tsodyks3_synapse)) = 3 / 2"
    using set_status_raises_iff_out_of_range [of "[name_dU \<mapsto> 3 / 2]" new_tsodyks3_synapse]
    by (simp add: example_eval)
  have 2: "fst (set_status None [name_u \<mapsto> - 1 / 10] new_tsodyks3_synapse)
             = Some (BadProperty ''u must be in [0,1].'') \<and>
           m_u (snd (set_status None [name_u \<mapsto> - 1 / 10] new_tsodyks3_synapse)) = - 1 / 10"
    using set_status_raises_iff_out_of_range [of "[name_u \<mapsto> - 1 / 10]" new_tsodyks3_synapse]
    by (simp add: example_eval)
  have 3: "fst (set_status None [name_tau_rec \<mapsto> 0] new_tsodyks3_synapse)
             = Some (BadProperty ''tau_rec must be > 0.'') \<and>
           m_tau_rec (snd (set_status None [name_tau_rec \<mapsto> 0] new_tsodyks3_synapse)) = 0"
    using set_status_raises_iff_out_of_range [of "[name_tau_rec \<mapsto> 0]" new_tsodyks3_synapse]
    by (simp add: example_eval)
  have 4: "fst (set_status None [name_tau_fac \<mapsto> - 1] new_tsodyks3_synapse)
             = Some (BadProperty ''tau_fac must be >= 0.'') \<and>
           m_tau_fac (snd (set_status None [name_tau_fac \<mapsto> - 1] new_tsodyks3_synapse)) = - 1"
    using set_status_raises_iff_out_of_range [of "[name_tau_fac \<mapsto> - 1]" new_tsodyks3_synapse]
    by (simp add: example_eval)
  have 5: "fst (set_status None [name_x \<mapsto> 2] new_tsodyks3_synapse)
             = Some (BadProperty ''x must be in [0,1].'') \<and>
           m_x (snd (set_status None [name_x \<mapsto> 2] new_tsodyks3_synapse)) = 2"
    using set_status_raises_iff_out_of_range [of "[name_x \<mapsto> 2]" new_tsodyks3_synapse]
    by (simp add: example_eval)
  have v: "valid_parameters new_tsodyks3_synapse"
    by (simp add: example_eval)
  have o: "overrides_in_range [name_weight \<mapsto> - 3, name_dU \<mapsto> 1 / 5, name_tau_fac \<mapsto> 50]"
    by (simp add: example_eval)
  have 6: "fst (set_status None [name_weight \<mapsto> - 3, name_dU \<mapsto> 1 / 5, name_tau_fac \<mapsto> 50]
                  new_tsodyks3_synapse) = None \<and>
           snd (set_status None [name_weight \<mapsto> - 3, name_dU \<mapsto> 1 / 5, name_tau_fac \<mapsto> 50]
                  new_tsodyks3_synapse)
             = new_tsodyks3_synapse\<lparr>m_weight := - 3, m_U := 1 / 5, m_tau_fac := 50\<rparr>"
    using v o set_status_raises_iff_out_of_range
      [of "[name_weight \<mapsto> - 3, name_dU \<mapsto> 1 / 5, name_tau_fac \<mapsto> 50]" new_tsodyks3_synapse]
    by (simp add: Let_def apply_overrides_def updateValue_def new_tsodyks3_synapse_def)
  from 1 2 3 4 5 v o 6 show ?thesis by blast
qed

subsection \<open>The order of the assignments\<close>

text \<open>
  Claim C7. \<^verbatim>\<open>set_status\<close> assigns and checks in the order \<open>weight\<close>, \<open>U\<close>,
  \<open>u\<close>, \<open>tau_rec\<close>, \<open>tau_fac\<close>, \<open>x\<close>. The weight is assigned and never checked
  (no value of it changes the outcome). The exception names the first member, in that
  order, that is out of range, and ends the call: the members up to that one hold their
  overrides and the members after it keep the values they had before the call, whatever
  the dictionary holds for them.
\<close>

theorem set_status_order_and_abort:
  "let a = apply_overrides d s; r = set_status None d s in
     m_weight (snd r) = updateValue d name_weight (m_weight s) \<and>
     (\<forall>w. fst (set_status None (d(name_weight \<mapsto> w)) s) = fst r) \<and>
     m_U (snd r) = updateValue d name_dU (m_U s) \<and>
     ((fst r = None) = valid_parameters a) \<and>
     ((fst r = Some (BadProperty ''U must be in [0,1].'')) = (m_U a > 1 \<or> m_U a < 0)) \<and>
     ((fst r = Some (BadProperty ''u must be in [0,1].'')) =
        (\<not> (m_U a > 1 \<or> m_U a < 0) \<and> (m_u a > 1 \<or> m_u a < 0))) \<and>
     ((fst r = Some (BadProperty ''tau_rec must be > 0.'')) =
        (\<not> (m_U a > 1 \<or> m_U a < 0) \<and> \<not> (m_u a > 1 \<or> m_u a < 0) \<and> m_tau_rec a \<le> 0)) \<and>
     ((fst r = Some (BadProperty ''tau_fac must be >= 0.'')) =
        (\<not> (m_U a > 1 \<or> m_U a < 0) \<and> \<not> (m_u a > 1 \<or> m_u a < 0) \<and> \<not> m_tau_rec a \<le> 0 \<and>
         m_tau_fac a < 0)) \<and>
     ((fst r = Some (BadProperty ''x must be in [0,1].'')) =
        (\<not> (m_U a > 1 \<or> m_U a < 0) \<and> \<not> (m_u a > 1 \<or> m_u a < 0) \<and> \<not> m_tau_rec a \<le> 0 \<and>
         \<not> m_tau_fac a < 0 \<and> (m_x a > 1 \<or> m_x a < 0))) \<and>
     (fst r = Some (BadProperty ''U must be in [0,1].'') \<longrightarrow>
        m_u (snd r) = m_u s \<and> m_tau_rec (snd r) = m_tau_rec s \<and>
        m_tau_fac (snd r) = m_tau_fac s \<and> m_x (snd r) = m_x s) \<and>
     (fst r = Some (BadProperty ''u must be in [0,1].'') \<longrightarrow>
        m_u (snd r) = updateValue d name_u (m_u s) \<and> m_tau_rec (snd r) = m_tau_rec s \<and>
        m_tau_fac (snd r) = m_tau_fac s \<and> m_x (snd r) = m_x s) \<and>
     (fst r = Some (BadProperty ''tau_rec must be > 0.'') \<longrightarrow>
        m_u (snd r) = updateValue d name_u (m_u s) \<and>
        m_tau_rec (snd r) = updateValue d name_tau_rec (m_tau_rec s) \<and>
        m_tau_fac (snd r) = m_tau_fac s \<and> m_x (snd r) = m_x s) \<and>
     (fst r = Some (BadProperty ''tau_fac must be >= 0.'') \<longrightarrow>
        m_u (snd r) = updateValue d name_u (m_u s) \<and>
        m_tau_rec (snd r) = updateValue d name_tau_rec (m_tau_rec s) \<and>
        m_tau_fac (snd r) = updateValue d name_tau_fac (m_tau_fac s) \<and> m_x (snd r) = m_x s) \<and>
     (fst r = Some (BadProperty ''x must be in [0,1].'') \<or> fst r = None \<longrightarrow> snd r = a)"
proof -
  have w: "\<forall>w. fst (set_status None (d(name_weight \<mapsto> w)) s) = fst (set_status None d s)"
    by (simp add: set_status_weight_unchecked)
  have U: "fst (set_status None d s) = Some (BadProperty ''U must be in [0,1].'') \<longrightarrow>
      m_u (snd (set_status None d s)) = m_u s \<and>
      m_tau_rec (snd (set_status None d s)) = m_tau_rec s \<and>
      m_tau_fac (snd (set_status None d s)) = m_tau_fac s \<and>
      m_x (snd (set_status None d s)) = m_x s"
    using set_status_U_state [of d s] by auto
  have u: "fst (set_status None d s) = Some (BadProperty ''u must be in [0,1].'') \<longrightarrow>
      m_u (snd (set_status None d s)) = updateValue d name_u (m_u s) \<and>
      m_tau_rec (snd (set_status None d s)) = m_tau_rec s \<and>
      m_tau_fac (snd (set_status None d s)) = m_tau_fac s \<and>
      m_x (snd (set_status None d s)) = m_x s"
    using set_status_u_state [of d s] by auto
  have tr: "fst (set_status None d s) = Some (BadProperty ''tau_rec must be > 0.'') \<longrightarrow>
      m_u (snd (set_status None d s)) = updateValue d name_u (m_u s) \<and>
      m_tau_rec (snd (set_status None d s)) = updateValue d name_tau_rec (m_tau_rec s) \<and>
      m_tau_fac (snd (set_status None d s)) = m_tau_fac s \<and>
      m_x (snd (set_status None d s)) = m_x s"
    using set_status_tau_rec_state [of d s] by auto
  have tf: "fst (set_status None d s) = Some (BadProperty ''tau_fac must be >= 0.'') \<longrightarrow>
      m_u (snd (set_status None d s)) = updateValue d name_u (m_u s) \<and>
      m_tau_rec (snd (set_status None d s)) = updateValue d name_tau_rec (m_tau_rec s) \<and>
      m_tau_fac (snd (set_status None d s)) = updateValue d name_tau_fac (m_tau_fac s) \<and>
      m_x (snd (set_status None d s)) = m_x s"
    using set_status_tau_fac_state [of d s] by auto
  have x: "fst (set_status None d s) = Some (BadProperty ''x must be in [0,1].'') \<or>
      fst (set_status None d s) = None \<longrightarrow> snd (set_status None d s) = apply_overrides d s"
    using set_status_x_state [of d s] set_status_ok_state [of d s] by blast
  show ?thesis
    unfolding Let_def
    using set_status_weight_U_written [of d s] w set_status_ok_iff [of d s] set_status_U_iff [of d s]
      set_status_u_iff [of d s] set_status_tau_rec_iff [of d s] set_status_tau_fac_iff [of d s]
      set_status_x_iff [of d s] U u tr tf x
    by blast
qed

lemmas all_overrides_eval =
  Let_def apply_overrides_def updateValue_def new_tsodyks3_synapse_def all_overrides_def
  valid_parameters_def

theorem set_status_order_and_abort_witness:
  "fst (set_status None (all_overrides (3 / 2) 2 (- 100) (- 50) 2) new_tsodyks3_synapse)
     = Some (BadProperty ''U must be in [0,1].'') \<and>
   m_weight (snd (set_status None (all_overrides (3 / 2) 2 (- 100) (- 50) 2) new_tsodyks3_synapse)) = - 7 \<and>
   m_U (snd (set_status None (all_overrides (3 / 2) 2 (- 100) (- 50) 2) new_tsodyks3_synapse)) = 3 / 2 \<and>
   m_u (snd (set_status None (all_overrides (3 / 2) 2 (- 100) (- 50) 2) new_tsodyks3_synapse)) = 1 / 2 \<and>
   m_tau_rec (snd (set_status None (all_overrides (3 / 2) 2 (- 100) (- 50) 2) new_tsodyks3_synapse)) = 800 \<and>
   m_tau_fac (snd (set_status None (all_overrides (3 / 2) 2 (- 100) (- 50) 2) new_tsodyks3_synapse)) = 0 \<and>
   m_x (snd (set_status None (all_overrides (3 / 2) 2 (- 100) (- 50) 2) new_tsodyks3_synapse)) = 1 \<and>
   fst (set_status None (all_overrides (1 / 5) 2 (- 100) (- 50) 2) new_tsodyks3_synapse)
     = Some (BadProperty ''u must be in [0,1].'') \<and>
   m_weight (snd (set_status None (all_overrides (1 / 5) 2 (- 100) (- 50) 2) new_tsodyks3_synapse)) = - 7 \<and>
   m_U (snd (set_status None (all_overrides (1 / 5) 2 (- 100) (- 50) 2) new_tsodyks3_synapse)) = 1 / 5 \<and>
   m_u (snd (set_status None (all_overrides (1 / 5) 2 (- 100) (- 50) 2) new_tsodyks3_synapse)) = 2 \<and>
   m_tau_rec (snd (set_status None (all_overrides (1 / 5) 2 (- 100) (- 50) 2) new_tsodyks3_synapse)) = 800 \<and>
   m_tau_fac (snd (set_status None (all_overrides (1 / 5) 2 (- 100) (- 50) 2) new_tsodyks3_synapse)) = 0 \<and>
   m_x (snd (set_status None (all_overrides (1 / 5) 2 (- 100) (- 50) 2) new_tsodyks3_synapse)) = 1 \<and>
   fst (set_status None (all_overrides (1 / 5) (1 / 4) (- 100) (- 50) 2) new_tsodyks3_synapse)
     = Some (BadProperty ''tau_rec must be > 0.'') \<and>
   m_weight (snd (set_status None (all_overrides (1 / 5) (1 / 4) (- 100) (- 50) 2) new_tsodyks3_synapse)) = - 7 \<and>
   m_U (snd (set_status None (all_overrides (1 / 5) (1 / 4) (- 100) (- 50) 2) new_tsodyks3_synapse)) = 1 / 5 \<and>
   m_u (snd (set_status None (all_overrides (1 / 5) (1 / 4) (- 100) (- 50) 2) new_tsodyks3_synapse)) = 1 / 4 \<and>
   m_tau_rec (snd (set_status None (all_overrides (1 / 5) (1 / 4) (- 100) (- 50) 2) new_tsodyks3_synapse)) = - 100 \<and>
   m_tau_fac (snd (set_status None (all_overrides (1 / 5) (1 / 4) (- 100) (- 50) 2) new_tsodyks3_synapse)) = 0 \<and>
   m_x (snd (set_status None (all_overrides (1 / 5) (1 / 4) (- 100) (- 50) 2) new_tsodyks3_synapse)) = 1 \<and>
   fst (set_status None (all_overrides (1 / 5) (1 / 4) 100 (- 50) 2) new_tsodyks3_synapse)
     = Some (BadProperty ''tau_fac must be >= 0.'') \<and>
   m_weight (snd (set_status None (all_overrides (1 / 5) (1 / 4) 100 (- 50) 2) new_tsodyks3_synapse)) = - 7 \<and>
   m_U (snd (set_status None (all_overrides (1 / 5) (1 / 4) 100 (- 50) 2) new_tsodyks3_synapse)) = 1 / 5 \<and>
   m_u (snd (set_status None (all_overrides (1 / 5) (1 / 4) 100 (- 50) 2) new_tsodyks3_synapse)) = 1 / 4 \<and>
   m_tau_rec (snd (set_status None (all_overrides (1 / 5) (1 / 4) 100 (- 50) 2) new_tsodyks3_synapse)) = 100 \<and>
   m_tau_fac (snd (set_status None (all_overrides (1 / 5) (1 / 4) 100 (- 50) 2) new_tsodyks3_synapse)) = - 50 \<and>
   m_x (snd (set_status None (all_overrides (1 / 5) (1 / 4) 100 (- 50) 2) new_tsodyks3_synapse)) = 1 \<and>
   fst (set_status None (all_overrides (1 / 5) (1 / 4) 100 50 2) new_tsodyks3_synapse)
     = Some (BadProperty ''x must be in [0,1].'') \<and>
   m_weight (snd (set_status None (all_overrides (1 / 5) (1 / 4) 100 50 2) new_tsodyks3_synapse)) = - 7 \<and>
   m_U (snd (set_status None (all_overrides (1 / 5) (1 / 4) 100 50 2) new_tsodyks3_synapse)) = 1 / 5 \<and>
   m_u (snd (set_status None (all_overrides (1 / 5) (1 / 4) 100 50 2) new_tsodyks3_synapse)) = 1 / 4 \<and>
   m_tau_rec (snd (set_status None (all_overrides (1 / 5) (1 / 4) 100 50 2) new_tsodyks3_synapse)) = 100 \<and>
   m_tau_fac (snd (set_status None (all_overrides (1 / 5) (1 / 4) 100 50 2) new_tsodyks3_synapse)) = 50 \<and>
   m_x (snd (set_status None (all_overrides (1 / 5) (1 / 4) 100 50 2) new_tsodyks3_synapse)) = 2 \<and>
   fst (set_status None (all_overrides (1 / 5) (1 / 4) 100 50 (1 / 2)) new_tsodyks3_synapse)
     = None \<and>
   m_weight (snd (set_status None (all_overrides (1 / 5) (1 / 4) 100 50 (1 / 2)) new_tsodyks3_synapse)) = - 7 \<and>
   m_U (snd (set_status None (all_overrides (1 / 5) (1 / 4) 100 50 (1 / 2)) new_tsodyks3_synapse)) = 1 / 5 \<and>
   m_u (snd (set_status None (all_overrides (1 / 5) (1 / 4) 100 50 (1 / 2)) new_tsodyks3_synapse)) = 1 / 4 \<and>
   m_tau_rec (snd (set_status None (all_overrides (1 / 5) (1 / 4) 100 50 (1 / 2)) new_tsodyks3_synapse)) = 100 \<and>
   m_tau_fac (snd (set_status None (all_overrides (1 / 5) (1 / 4) 100 50 (1 / 2)) new_tsodyks3_synapse)) = 50 \<and>
   m_x (snd (set_status None (all_overrides (1 / 5) (1 / 4) 100 50 (1 / 2)) new_tsodyks3_synapse)) = 1 / 2"
proof -
  have c1:
    "fst (set_status None (all_overrides (3 / 2) 2 (- 100) (- 50) 2) new_tsodyks3_synapse)
     = Some (BadProperty ''U must be in [0,1].'') \<and>
     m_weight (snd (set_status None (all_overrides (3 / 2) 2 (- 100) (- 50) 2) new_tsodyks3_synapse)) = - 7 \<and>
     m_U (snd (set_status None (all_overrides (3 / 2) 2 (- 100) (- 50) 2) new_tsodyks3_synapse)) = 3 / 2 \<and>
     m_u (snd (set_status None (all_overrides (3 / 2) 2 (- 100) (- 50) 2) new_tsodyks3_synapse)) = 1 / 2 \<and>
     m_tau_rec (snd (set_status None (all_overrides (3 / 2) 2 (- 100) (- 50) 2) new_tsodyks3_synapse)) = 800 \<and>
     m_tau_fac (snd (set_status None (all_overrides (3 / 2) 2 (- 100) (- 50) 2) new_tsodyks3_synapse)) = 0 \<and>
     m_x (snd (set_status None (all_overrides (3 / 2) 2 (- 100) (- 50) 2) new_tsodyks3_synapse)) = 1"
    using set_status_order_and_abort
      [of "all_overrides (3 / 2) 2 (- 100) (- 50) 2" new_tsodyks3_synapse]
    by (simp add: all_overrides_eval)
  have c2:
    "fst (set_status None (all_overrides (1 / 5) 2 (- 100) (- 50) 2) new_tsodyks3_synapse)
     = Some (BadProperty ''u must be in [0,1].'') \<and>
     m_weight (snd (set_status None (all_overrides (1 / 5) 2 (- 100) (- 50) 2) new_tsodyks3_synapse)) = - 7 \<and>
     m_U (snd (set_status None (all_overrides (1 / 5) 2 (- 100) (- 50) 2) new_tsodyks3_synapse)) = 1 / 5 \<and>
     m_u (snd (set_status None (all_overrides (1 / 5) 2 (- 100) (- 50) 2) new_tsodyks3_synapse)) = 2 \<and>
     m_tau_rec (snd (set_status None (all_overrides (1 / 5) 2 (- 100) (- 50) 2) new_tsodyks3_synapse)) = 800 \<and>
     m_tau_fac (snd (set_status None (all_overrides (1 / 5) 2 (- 100) (- 50) 2) new_tsodyks3_synapse)) = 0 \<and>
     m_x (snd (set_status None (all_overrides (1 / 5) 2 (- 100) (- 50) 2) new_tsodyks3_synapse)) = 1"
    using set_status_order_and_abort
      [of "all_overrides (1 / 5) 2 (- 100) (- 50) 2" new_tsodyks3_synapse]
    by (simp add: all_overrides_eval)
  have c3:
    "fst (set_status None (all_overrides (1 / 5) (1 / 4) (- 100) (- 50) 2) new_tsodyks3_synapse)
     = Some (BadProperty ''tau_rec must be > 0.'') \<and>
     m_weight (snd (set_status None (all_overrides (1 / 5) (1 / 4) (- 100) (- 50) 2) new_tsodyks3_synapse)) = - 7 \<and>
     m_U (snd (set_status None (all_overrides (1 / 5) (1 / 4) (- 100) (- 50) 2) new_tsodyks3_synapse)) = 1 / 5 \<and>
     m_u (snd (set_status None (all_overrides (1 / 5) (1 / 4) (- 100) (- 50) 2) new_tsodyks3_synapse)) = 1 / 4 \<and>
     m_tau_rec (snd (set_status None (all_overrides (1 / 5) (1 / 4) (- 100) (- 50) 2) new_tsodyks3_synapse)) = - 100 \<and>
     m_tau_fac (snd (set_status None (all_overrides (1 / 5) (1 / 4) (- 100) (- 50) 2) new_tsodyks3_synapse)) = 0 \<and>
     m_x (snd (set_status None (all_overrides (1 / 5) (1 / 4) (- 100) (- 50) 2) new_tsodyks3_synapse)) = 1"
    using set_status_order_and_abort
      [of "all_overrides (1 / 5) (1 / 4) (- 100) (- 50) 2" new_tsodyks3_synapse]
    by (simp add: all_overrides_eval)
  have c4:
    "fst (set_status None (all_overrides (1 / 5) (1 / 4) 100 (- 50) 2) new_tsodyks3_synapse)
     = Some (BadProperty ''tau_fac must be >= 0.'') \<and>
     m_weight (snd (set_status None (all_overrides (1 / 5) (1 / 4) 100 (- 50) 2) new_tsodyks3_synapse)) = - 7 \<and>
     m_U (snd (set_status None (all_overrides (1 / 5) (1 / 4) 100 (- 50) 2) new_tsodyks3_synapse)) = 1 / 5 \<and>
     m_u (snd (set_status None (all_overrides (1 / 5) (1 / 4) 100 (- 50) 2) new_tsodyks3_synapse)) = 1 / 4 \<and>
     m_tau_rec (snd (set_status None (all_overrides (1 / 5) (1 / 4) 100 (- 50) 2) new_tsodyks3_synapse)) = 100 \<and>
     m_tau_fac (snd (set_status None (all_overrides (1 / 5) (1 / 4) 100 (- 50) 2) new_tsodyks3_synapse)) = - 50 \<and>
     m_x (snd (set_status None (all_overrides (1 / 5) (1 / 4) 100 (- 50) 2) new_tsodyks3_synapse)) = 1"
    using set_status_order_and_abort
      [of "all_overrides (1 / 5) (1 / 4) 100 (- 50) 2" new_tsodyks3_synapse]
    by (simp add: all_overrides_eval)
  have c5:
    "fst (set_status None (all_overrides (1 / 5) (1 / 4) 100 50 2) new_tsodyks3_synapse)
     = Some (BadProperty ''x must be in [0,1].'') \<and>
     m_weight (snd (set_status None (all_overrides (1 / 5) (1 / 4) 100 50 2) new_tsodyks3_synapse)) = - 7 \<and>
     m_U (snd (set_status None (all_overrides (1 / 5) (1 / 4) 100 50 2) new_tsodyks3_synapse)) = 1 / 5 \<and>
     m_u (snd (set_status None (all_overrides (1 / 5) (1 / 4) 100 50 2) new_tsodyks3_synapse)) = 1 / 4 \<and>
     m_tau_rec (snd (set_status None (all_overrides (1 / 5) (1 / 4) 100 50 2) new_tsodyks3_synapse)) = 100 \<and>
     m_tau_fac (snd (set_status None (all_overrides (1 / 5) (1 / 4) 100 50 2) new_tsodyks3_synapse)) = 50 \<and>
     m_x (snd (set_status None (all_overrides (1 / 5) (1 / 4) 100 50 2) new_tsodyks3_synapse)) = 2"
    using set_status_order_and_abort
      [of "all_overrides (1 / 5) (1 / 4) 100 50 2" new_tsodyks3_synapse]
    by (simp add: all_overrides_eval)
  have c6:
    "fst (set_status None (all_overrides (1 / 5) (1 / 4) 100 50 (1 / 2)) new_tsodyks3_synapse)
     = None \<and>
     m_weight (snd (set_status None (all_overrides (1 / 5) (1 / 4) 100 50 (1 / 2)) new_tsodyks3_synapse)) = - 7 \<and>
     m_U (snd (set_status None (all_overrides (1 / 5) (1 / 4) 100 50 (1 / 2)) new_tsodyks3_synapse)) = 1 / 5 \<and>
     m_u (snd (set_status None (all_overrides (1 / 5) (1 / 4) 100 50 (1 / 2)) new_tsodyks3_synapse)) = 1 / 4 \<and>
     m_tau_rec (snd (set_status None (all_overrides (1 / 5) (1 / 4) 100 50 (1 / 2)) new_tsodyks3_synapse)) = 100 \<and>
     m_tau_fac (snd (set_status None (all_overrides (1 / 5) (1 / 4) 100 50 (1 / 2)) new_tsodyks3_synapse)) = 50 \<and>
     m_x (snd (set_status None (all_overrides (1 / 5) (1 / 4) 100 50 (1 / 2)) new_tsodyks3_synapse)) = 1 / 2"
    using set_status_order_and_abort
      [of "all_overrides (1 / 5) (1 / 4) 100 50 (1 / 2)" new_tsodyks3_synapse]
    by (simp add: all_overrides_eval)
  from c1 c2 c3 c4 c5 c6 show ?thesis by blast
qed

subsection \<open>What set_status leaves alone\<close>

text \<open>
  Claim C8. \<^verbatim>\<open>set_status\<close> changes only members that the dictionary names: each of
  \<open>weight\<close>, \<open>U\<close>, \<open>u\<close>, \<open>x\<close>, \<open>tau_rec\<close>, \<open>tau_fac\<close> whose name is absent
  keeps its value, and \<open>t_lastspike\<close> is never changed. This holds for every outcome
  of the call, an exception of the base class included.
\<close>

theorem set_status_frame:
  "(name_weight \<notin> dom d \<longrightarrow> m_weight (snd (set_status b d s)) = m_weight s) \<and>
   (name_dU \<notin> dom d \<longrightarrow> m_U (snd (set_status b d s)) = m_U s) \<and>
   (name_u \<notin> dom d \<longrightarrow> m_u (snd (set_status b d s)) = m_u s) \<and>
   (name_x \<notin> dom d \<longrightarrow> m_x (snd (set_status b d s)) = m_x s) \<and>
   (name_tau_rec \<notin> dom d \<longrightarrow> m_tau_rec (snd (set_status b d s)) = m_tau_rec s) \<and>
   (name_tau_fac \<notin> dom d \<longrightarrow> m_tau_fac (snd (set_status b d s)) = m_tau_fac s) \<and>
   m_t_lastspike (snd (set_status b d s)) = m_t_lastspike s"
proof (cases b)
  case None
  then show ?thesis by (simp add: set_status_def Let_def updateValue_absent)
next
  case (Some ex)
  then show ?thesis by (simp add: set_status_def)
qed

theorem set_status_frame_witness:
  "name_weight \<notin> dom [name_tau_rec \<mapsto> 100 :: real] \<and> name_dU \<notin> dom [name_tau_rec \<mapsto> 100 :: real] \<and>
   name_u \<notin> dom [name_tau_rec \<mapsto> 100 :: real] \<and> name_x \<notin> dom [name_tau_rec \<mapsto> 100 :: real] \<and>
   name_tau_fac \<notin> dom [name_tau_rec \<mapsto> 100 :: real] \<and>
   m_weight (snd (set_status None [name_tau_rec \<mapsto> 100] after_first_spike)) = 1 \<and>
   m_U (snd (set_status None [name_tau_rec \<mapsto> 100] after_first_spike)) = 1 / 2 \<and>
   m_u (snd (set_status None [name_tau_rec \<mapsto> 100] after_first_spike)) = 3 / 4 \<and>
   m_x (snd (set_status None [name_tau_rec \<mapsto> 100] after_first_spike)) = 1 / 4 \<and>
   m_tau_fac (snd (set_status None [name_tau_rec \<mapsto> 100] after_first_spike)) = 0 \<and>
   m_t_lastspike (snd (set_status None [name_tau_rec \<mapsto> 100] after_first_spike)) = 0 \<and>
   name_tau_rec \<notin> dom [name_dU \<mapsto> 3 / 2 :: real] \<and>
   m_tau_rec (snd (set_status None [name_dU \<mapsto> 3 / 2] after_first_spike)) = 800"
proof -
  have 1: "name_weight \<notin> dom [name_tau_rec \<mapsto> 100 :: real]" "name_dU \<notin> dom [name_tau_rec \<mapsto> 100 :: real]"
    "name_u \<notin> dom [name_tau_rec \<mapsto> 100 :: real]" "name_x \<notin> dom [name_tau_rec \<mapsto> 100 :: real]"
    "name_tau_fac \<notin> dom [name_tau_rec \<mapsto> 100 :: real]" "name_tau_rec \<notin> dom [name_dU \<mapsto> 3 / 2 :: real]"
    by simp_all
  have 2: "m_weight after_first_spike = 1" "m_U after_first_spike = 1 / 2"
    "m_u after_first_spike = 3 / 4" "m_x after_first_spike = 1 / 4"
    "m_tau_fac after_first_spike = 0" "m_t_lastspike after_first_spike = 0"
    "m_tau_rec after_first_spike = 800"
    by (simp_all add: after_first_spike_def new_tsodyks3_synapse_def)
  from 1 2 set_status_frame [of "[name_tau_rec \<mapsto> 100]" None after_first_spike]
    set_status_frame [of "[name_dU \<mapsto> 3 / 2]" None after_first_spike]
  show ?thesis by metis
qed

subsection \<open>Configuring twice\<close>

text \<open>
  Claim C10. Calling \<^verbatim>\<open>set_status\<close> a second time with the same dictionary (and
  the base class behaving as in the first call) leaves the state as the first call left
  it, and has the same outcome. This holds for every state and every dictionary, so in
  particular for valid overrides.
\<close>

theorem set_status_idempotent:
  "snd (set_status b d (snd (set_status b d s))) = snd (set_status b d s) \<and>
   fst (set_status b d (snd (set_status b d s))) = fst (set_status b d s)"
proof (cases b)
  case None
  then show ?thesis by (simp add: set_status_def Let_def updateValue_idem)
next
  case (Some ex)
  then show ?thesis by (simp add: set_status_def)
qed

end
